theory Spec2Isabelle
  imports Main "HOL-Library.Sublist"
begin

section \<open>The comment remover of \<open>src/main.py\<close>\<close>

text \<open>
  The function \<open>remove_comments\<close> of \<open>src/main.py\<close> reads a file into the string
  \<open>code\<close>, rewrites it with four calls of \<open>re.sub\<close>, optionally prepends the lines
  found by \<open>re.findall\<close>, and writes the result. The model below is the text
  transformation between the read and the write (lines 59 to 75 of the source): a total
  function from the decoded text and the flag \<open>remove_all\<close> to the text that is written.
  A text is a \<open>string\<close>, one \<open>char\<close> for each character of the Python string; the
  regular expressions compare characters with ASCII literals only.
\<close>

subsection \<open>Characters and lines\<close>

abbreviation newline :: char where
  "newline \<equiv> CHR 0x0A"

text \<open>
  In the patterns of the source \<open>.\<close> matches every character except the newline, and
  \<open>.*\<close> is greedy and is the last item of its pattern: it consumes the rest of the line.
  \<open>rest_of_line s\<close> is what is left of \<open>s\<close> after \<open>.*\<close> has matched at its head.
\<close>

definition rest_of_line :: "string \<Rightarrow> string" where
  "rest_of_line s = dropWhile (\<lambda>c. c \<noteq> newline) s"

definition line_head :: "string \<Rightarrow> string" where
  "line_head s = takeWhile (\<lambda>c. c \<noteq> newline) s"

subsection \<open>\<open>re.sub(marker + '.*', '', code)\<close>\<close>

text \<open>
  \<open>re.sub\<close> scans the text from the left. Where the pattern matches, the match is
  replaced (here by the empty string) and the scan goes on behind the match; elsewhere
  the character is copied and the scan moves one character on. The three patterns
  \<open>//.*\<close>, \<open>#.*\<close> and \<open>--.*\<close> are a literal marker followed by \<open>.*\<close>; the
  marker of the source is never empty.
\<close>

function sub_to_eol :: "string \<Rightarrow> string \<Rightarrow> string" where
  "sub_to_eol m [] = []"
| "sub_to_eol m (c # cs) =
     (if m \<noteq> [] \<and> prefix m (c # cs)
      then sub_to_eol m (rest_of_line (drop (length m) (c # cs)))
      else c # sub_to_eol m cs)"
  by pat_completeness auto
termination
proof (relation "measure (\<lambda>(m, s). length s)")
  show "wf (measure (\<lambda>(m, s). length s))" by simp
next
  fix m :: string and c cs
  assume "m \<noteq> [] \<and> prefix m (c # cs)"
  then have "0 < length m" by simp
  then have "length (drop (length m) (c # cs)) \<le> length cs"
    by (cases "length m") simp_all
  moreover have "length (rest_of_line (drop (length m) (c # cs)))
      \<le> length (drop (length m) (c # cs))"
    unfolding rest_of_line_def by (rule length_dropWhile_le)
  ultimately show "((m, rest_of_line (drop (length m) (c # cs))), (m, c # cs))
      \<in> measure (\<lambda>(m, s). length s)"
    by simp
next
  fix m :: string and c cs
  show "((m, cs), (m, c # cs)) \<in> measure (\<lambda>(m, s). length s)" by simp
qed

subsection \<open>\<open>re.sub(r'/\*[\s\S]*?\*/', '', code)\<close>\<close>

text \<open>
  \<open>[\s\S]\<close> matches every character, the newline too, and \<open>*?\<close> is lazy: behind
  \<open>/*\<close> the match ends at the nearest \<open>*/\<close>. \<open>find_close s\<close> is the text behind
  the first \<open>*/\<close> of \<open>s\<close>, and \<open>block_end s\<close> is the text behind a match of the
  whole pattern at the head of \<open>s\<close>; both are \<open>None\<close> when there is no match.
\<close>

fun find_close :: "string \<Rightarrow> string option" where
  "find_close [] = None"
| "find_close (c # cs) =
     (if prefix ''*/'' (c # cs) then Some (drop 2 (c # cs)) else find_close cs)"

definition block_end :: "string \<Rightarrow> string option" where
  "block_end s = (if prefix ''/*'' s then find_close (drop 2 s) else None)"

function sub_block :: "string \<Rightarrow> string" where
  "sub_block [] = []"
| "sub_block (c # cs) =
     (case block_end (c # cs) of
        Some r \<Rightarrow> sub_block r
      | None \<Rightarrow> c # sub_block cs)"
  by pat_completeness auto
termination
proof (relation "measure length")
  show "wf (measure length)" by simp
next
  fix c cs r
  assume m: "block_end (c # cs) = Some r"
  have close: "find_close s = Some t \<Longrightarrow> length t < length s" for s t
    by (induction s) (auto split: if_splits)
  from m have "find_close (drop 2 (c # cs)) = Some r"
    by (simp add: block_end_def split: if_splits)
  then have "length r < length (drop 2 (c # cs))" by (rule close)
  then show "(r, c # cs) \<in> measure length" by simp
next
  fix c :: char and cs
  show "(cs, c # cs) \<in> measure length" by simp
qed

subsection \<open>\<open>re.findall(r'^(Copyright.*)$', code, re.MULTILINE)\<close>\<close>

text \<open>
  With \<open>re.MULTILINE\<close> the anchor \<open>^\<close> matches at the start of the text and behind
  every newline, and \<open>$\<close> matches at the end of the text and in front of every newline.
  The flag \<open>bol\<close> says whether the scan stands at such a start of line. A match is the
  word \<open>Copyright\<close> and the rest of its line, where \<open>$\<close> holds; the scan goes on behind
  the match, which is not a start of line.
\<close>

function findall_copyright :: "bool \<Rightarrow> string \<Rightarrow> string list" where
  "findall_copyright bol [] = []"
| "findall_copyright bol (c # cs) =
     (if bol \<and> prefix ''Copyright'' (c # cs)
      then line_head (c # cs) # findall_copyright False (rest_of_line (c # cs))
      else findall_copyright (c = newline) cs)"
  by pat_completeness auto
termination
proof (relation "measure (\<lambda>(bol, s). length s)")
  show "wf (measure (\<lambda>(bol, s). length s))" by simp
next
  fix bol c cs
  assume "bol \<and> prefix ''Copyright'' (c # cs)"
  then have "c = CHR ''C''" by simp
  then have "rest_of_line (c # cs) = rest_of_line cs"
    by (simp add: rest_of_line_def)
  moreover have "length (rest_of_line cs) \<le> length cs"
    unfolding rest_of_line_def by (rule length_dropWhile_le)
  ultimately show "((False, rest_of_line (c # cs)), (bol, c # cs))
      \<in> measure (\<lambda>(bol, s). length s)"
    by simp
next
  fix bol :: bool and c :: char and cs
  show "((c = newline, cs), (bol, c # cs)) \<in> measure (\<lambda>(bol, s). length s)" by simp
qed

subsection \<open>\<open>'\n'.join\<close> and the function \<open>remove_comments\<close>\<close>

fun join_newline :: "string list \<Rightarrow> string" where
  "join_newline [] = []"
| "join_newline [l] = l"
| "join_newline (l # k # ls) = l @ newline # join_newline (k # ls)"

text \<open>The four substitutions, in the order of the source.\<close>

definition strip_passes :: "string \<Rightarrow> string" where
  "strip_passes code =
     sub_to_eol ''--'' (sub_to_eol ''#'' (sub_block (sub_to_eol ''//'' code)))"

definition remove_comments :: "string \<Rightarrow> bool \<Rightarrow> string" where
  "remove_comments code remove_all =
     (let code = strip_passes code in
      if \<not> remove_all
      then join_newline (findall_copyright True code) @ [newline] @ code
      else code)"

subsection \<open>Vocabulary of the specification\<close>

text \<open>
  \<open>occurs m s\<close>: the text \<open>s\<close> contains the marker \<open>m\<close> as a contiguous piece.
  \<open>has_block s\<close>: the block pattern matches somewhere in \<open>s\<close>, that is, some
  \<open>/*\<close> is followed by a \<open>*/\<close> that does not overlap it.
  \<open>no_markers s\<close>: none of the comment markers of the specification occurs in \<open>s\<close>.
\<close>

fun occurs :: "string \<Rightarrow> string \<Rightarrow> bool" where
  "occurs m [] = (m = [])"
| "occurs m (c # cs) = (prefix m (c # cs) \<or> occurs m cs)"

fun has_block :: "string \<Rightarrow> bool" where
  "has_block [] = False"
| "has_block (c # cs) = (block_end (c # cs) \<noteq> None \<or> has_block cs)"

definition no_markers :: "string \<Rightarrow> bool" where
  "no_markers s =
     (\<not> occurs ''//'' s \<and> \<not> occurs ''/*'' s \<and> \<not> occurs ''*/'' s \<and>
      \<not> occurs ''#'' s \<and> \<not> occurs ''--'' s)"

text \<open>
  The lines of a text are its pieces between newlines (Python's \<open>split('\n')\<close>); a
  copyright notice is, in the words of the specification, a line whose text begins with
  the word \<open>Copyright\<close>.
\<close>

function split_lines :: "string \<Rightarrow> string list" where
  "split_lines s =
     (case rest_of_line s of
        [] \<Rightarrow> [line_head s]
      | c # r \<Rightarrow> line_head s # split_lines r)"
  by pat_completeness auto
termination
proof (relation "measure length")
  show "wf (measure length)" by simp
next
  fix s :: string and c r
  assume "rest_of_line s = c # r"
  moreover have "length (rest_of_line s) \<le> length s"
    unfolding rest_of_line_def by (rule length_dropWhile_le)
  ultimately show "(r, s) \<in> measure length" by simp
qed

definition copyright_lines :: "string \<Rightarrow> string list" where
  "copyright_lines s = filter (prefix ''Copyright'') (split_lines s)"

section \<open>Properties\<close>

subsection \<open>Two examples of the specification\<close>

text \<open>
  Claim C8. With \<open>remove_all\<close> set, the text \<open>/* block\ncomment */\nkeep\<close> becomes
  \<open>\nkeep\<close>: the block comment is removed across the line boundary, and the (empty)
  text in front of it is joined to the text behind it.
\<close>

theorem remove_comments_block_example:
  "remove_comments ''/* block\<newline>comment */\<newline>keep'' True = ''\<newline>keep''"
  by (simp add: remove_comments_def strip_passes_def block_end_def rest_of_line_def)

end
